theory Spec2Isabelle
  imports Main
begin

section \<open>The regular expressions of \<^verbatim>\<open>src/utils.py\<close> and \<^verbatim>\<open>src/app.py\<close>\<close>

text \<open>
  Both validators of the service are calls of Python's \<^verbatim>\<open>re.match\<close>. The patterns use
  character sets, the classes \<^verbatim>\<open>\d\<close> and \<^verbatim>\<open>\S\<close>, grouping, alternation, counted and
  unbounded repetition and the anchors \<^verbatim>\<open>^\<close> and \<^verbatim>\<open>$\<close>; one of them is compiled with
  \<^verbatim>\<open>re.IGNORECASE\<close>. The matcher below is a backtracking matcher for exactly these
  constructs. A position is the offset reached and the text still to read; matching a
  pattern at a position gives every position at which the pattern can end, in the order
  in which a backtracking engine tries them (greedy repetition first).

  Strings are lists of 8-bit characters, read as the code points below 256.
\<close>

datatype cls = Ch char | Rg char char | Digit | NonSpace

definition in_range :: "char \<Rightarrow> char \<Rightarrow> char \<Rightarrow> bool" where
  "in_range a b c = ((of_char a :: nat) \<le> of_char c \<and> (of_char c :: nat) \<le> of_char b)"

definition lower_char :: "char \<Rightarrow> char" where
  "lower_char c =
     (if in_range CHR ''A'' CHR ''Z'' c then char_of ((of_char c :: nat) + 32) else c)"

definition upper_char :: "char \<Rightarrow> char" where
  "upper_char c =
     (if in_range CHR ''a'' CHR ''z'' c then char_of ((of_char c :: nat) - 32) else c)"

text \<open>
  Python's white space among the code points below 256 (what \<^verbatim>\<open>\s\<close> matches and what
  \<^verbatim>\<open>str.strip()\<close> removes): TAB, LF, VT, FF, CR, the separators 28 to 31, the space,
  NEL (133) and the no-break space (160).
\<close>

definition py_isspace :: "char \<Rightarrow> bool" where
  "py_isspace c =
     (let n = (of_char c :: nat)
      in (9 \<le> n \<and> n \<le> 13) \<or> (28 \<le> n \<and> n \<le> 32) \<or> n = 133 \<or> n = 160)"

text \<open>The first argument is the \<^verbatim>\<open>re.IGNORECASE\<close> flag.\<close>

fun cls_match :: "bool \<Rightarrow> cls \<Rightarrow> char \<Rightarrow> bool" where
  "cls_match ic (Ch x) c = (c = x \<or> (ic \<and> lower_char c = lower_char x))"
| "cls_match ic (Rg a b) c =
     (in_range a b c \<or> (ic \<and> (in_range a b (lower_char c) \<or> in_range a b (upper_char c))))"
| "cls_match ic Digit c = in_range CHR ''0'' CHR ''9'' c"
| "cls_match ic NonSpace c = (\<not> py_isspace c)"

datatype re =
    Eps
  | Bol
  | Eol
  | Set "cls list"
  | Seq re re
  | Alt re re
  | Rep re nat "nat option"

type_synonym pos = "nat \<times> string"

text \<open>
  \<open>rep f lo hi k p\<close>: between \<open>lo\<close> and \<open>hi\<close> rounds of \<open>f\<close> from \<open>p\<close> (no upper bound when
  \<open>hi\<close> is \<open>None\<close>), one more round tried before stopping. \<open>k\<close> bounds the number of
  rounds; the matcher passes one more than the number of characters left, which no
  repetition of a pattern that reads a character can use up.
\<close>

fun rep :: "(pos \<Rightarrow> pos list) \<Rightarrow> nat \<Rightarrow> nat option \<Rightarrow> nat \<Rightarrow> pos \<Rightarrow> pos list" where
  "rep f lo hi 0 p = (if lo = 0 then [p] else [])"
| "rep f lo hi (Suc k) p =
     (if hi = Some 0 then [p]
      else concat (map (rep f (lo - 1) (map_option (\<lambda>h. h - 1) hi) k) (f p))
           @ (if lo = 0 then [p] else []))"

text \<open>
  \<^verbatim>\<open>^\<close> (without \<^verbatim>\<open>re.MULTILINE\<close>) holds at offset 0 only. \<^verbatim>\<open>$\<close> (without
  \<^verbatim>\<open>re.MULTILINE\<close>) holds at the end of the text and also just before a line feed that
  is the last character of the text.
\<close>

primrec matches :: "bool \<Rightarrow> re \<Rightarrow> pos \<Rightarrow> pos list" where
  "matches ic Eps = (\<lambda>p. [p])"
| "matches ic Bol = (\<lambda>p. if fst p = 0 then [p] else [])"
| "matches ic Eol = (\<lambda>p. if snd p = [] \<or> snd p = [CHR 0x0A] then [p] else [])"
| "matches ic (Set cs) =
     (\<lambda>p. case snd p of
            [] \<Rightarrow> []
          | c # rest \<Rightarrow>
              if \<exists>cl \<in> set cs. cls_match ic cl c then [(Suc (fst p), rest)] else [])"
| "matches ic (Seq a b) = (\<lambda>p. concat (map (matches ic b) (matches ic a p)))"
| "matches ic (Alt a b) = (\<lambda>p. matches ic a p @ matches ic b p)"
| "matches ic (Rep r lo hi) = (\<lambda>p. rep (matches ic r) lo hi (Suc (length (snd p))) p)"

definition Lit :: "char \<Rightarrow> re" where
  "Lit c = Set [Ch c]"

definition seqs :: "re list \<Rightarrow> re" where
  "seqs rs = foldr Seq rs Eps"

definition str :: "string \<Rightarrow> re" where
  "str s = seqs (map Lit s)"

definition opt :: "re \<Rightarrow> re" where
  "opt r = Rep r 0 (Some 1)"

definition plus_re :: "re \<Rightarrow> re" where
  "plus_re r = Rep r 1 None"

text \<open>\<^verbatim>\<open>re.match(pattern, s) is not None\<close>: the pattern matches at the start of \<open>s\<close>.\<close>

definition re_match :: "bool \<Rightarrow> re \<Rightarrow> string \<Rightarrow> bool" where
  "re_match ic r s = (matches ic r (0, s) \<noteq> [])"

subsection \<open>\<^verbatim>\<open>is_valid_url\<close> (\<^verbatim>\<open>src/utils.py\<close>, lines 26 to 36)\<close>

text \<open>
  \<^verbatim>\<open>
  ^(?:http|ftp)s?://
  (?:(?:[A-Z0-9](?:[A-Z0-9-]{0,61}[A-Z0-9])?\.)+(?:[A-Z]{2,6}\.?|[A-Z0-9-]{2,}\.?)|
  localhost|
  \d{1,3}\.\d{1,3}\.\d{1,3}\.\d{1,3})
  (?::\d+)?
  (?:/?|[/?]\S+)$        with re.IGNORECASE
  \<close>
\<close>

definition alnum :: "cls list" where
  "alnum = [Rg CHR ''A'' CHR ''Z'', Rg CHR ''0'' CHR ''9'']"

definition alnum_hyphen :: "cls list" where
  "alnum_hyphen = [Rg CHR ''A'' CHR ''Z'', Rg CHR ''0'' CHR ''9'', Ch CHR ''-'']"

definition domain_re :: re where
  "domain_re = seqs
     [plus_re (seqs [Set alnum,
                     opt (seqs [Rep (Set alnum_hyphen) 0 (Some 61), Set alnum]),
                     Lit CHR ''.'']),
      Alt (seqs [Rep (Set [Rg CHR ''A'' CHR ''Z'']) 2 (Some 6), opt (Lit CHR ''.'')])
          (seqs [Rep (Set alnum_hyphen) 2 None, opt (Lit CHR ''.'')])]"

definition ipv4_re :: re where
  "ipv4_re = seqs
     [Rep (Set [Digit]) 1 (Some 3), Lit CHR ''.'', Rep (Set [Digit]) 1 (Some 3), Lit CHR ''.'',
      Rep (Set [Digit]) 1 (Some 3), Lit CHR ''.'', Rep (Set [Digit]) 1 (Some 3)]"

definition url_regex :: re where
  "url_regex = seqs
     [Bol,
      Alt (str ''http'') (str ''ftp''), opt (Lit CHR ''s''), str ''://'',
      Alt domain_re (Alt (str ''localhost'') ipv4_re),
      opt (seqs [Lit CHR '':'', plus_re (Set [Digit])]),
      Alt (opt (Lit CHR ''/''))
          (seqs [Set [Ch CHR ''/'', Ch CHR ''?''], plus_re (Set [NonSpace])]),
      Eol]"

definition is_valid_url :: "string \<Rightarrow> bool" where
  "is_valid_url url = re_match True url_regex url"

subsection \<open>The custom short code pattern (\<^verbatim>\<open>src/app.py\<close>, line 79)\<close>

text \<open>\<^verbatim>\<open>^[a-zA-Z0-9_-]{4,20}$\<close>, compiled without flags.\<close>

definition shortcode_regex :: re where
  "shortcode_regex = seqs
     [Bol,
      Rep (Set [Rg CHR ''a'' CHR ''z'', Rg CHR ''A'' CHR ''Z'', Rg CHR ''0'' CHR ''9'',
                Ch CHR ''_'', Ch CHR ''-'']) 4 (Some 20),
      Eol]"

section \<open>Values, exceptions and time\<close>

text \<open>
  A field of the JSON body, as \<^verbatim>\<open>data.get\<close> returns it: \<open>JNull\<close> is Python's \<^verbatim>\<open>None\<close>
  (the key is missing or its value is \<^verbatim>\<open>null\<close>); \<open>JOther t\<close> is a float, an array or an
  object whose truth value is \<open>t\<close>.
\<close>

datatype json = JNull | JBool bool | JInt int | JStr string | JOther bool

fun truthy :: "json \<Rightarrow> bool" where
  "truthy JNull = False"
| "truthy (JBool b) = b"
| "truthy (JInt n) = (n \<noteq> 0)"
| "truthy (JStr s) = (s \<noteq> [])"
| "truthy (JOther t) = t"

text \<open>
  \<^verbatim>\<open>isinstance(v, int)\<close>, with the integer that \<open>v\<close> is: \<^verbatim>\<open>bool\<close> is a subclass of
  \<^verbatim>\<open>int\<close>, \<^verbatim>\<open>True\<close> is 1 and \<^verbatim>\<open>False\<close> is 0.
\<close>

fun as_int :: "json \<Rightarrow> int option" where
  "as_int (JInt n) = Some n"
| "as_int (JBool b) = Some (if b then 1 else 0)"
| "as_int _ = None"

record body =
  url :: json
  validity :: json
  shortcode :: json

text \<open>
  The exceptions of the model. \<open>SqliteError\<close> is any \<^verbatim>\<open>sqlite3.Error\<close> that the driver
  raises (a violated constraint, a locked or full database).
\<close>

datatype exn = TypeError | OverflowError | NameError | ValueError | SqliteError

text \<open>
  A \<^verbatim>\<open>datetime\<close> is the number of microseconds since \<^verbatim>\<open>datetime.min\<close>
  (0001-01-01T00:00:00); \<^verbatim>\<open>datetime.max\<close> is 9999-12-31T23:59:59.999999, the last
  microsecond of day 3652059. A \<^verbatim>\<open>timedelta\<close> is a number of microseconds whose whole
  days have a magnitude of at most 999999999. Both constructors raise
  \<^verbatim>\<open>OverflowError\<close> outside their range. The TEXT columns hold \<^verbatim>\<open>isoformat()\<close> of a
  datetime, which \<^verbatim>\<open>datetime.fromisoformat\<close> reads back; the model keeps the datetime.
\<close>

type_synonym datetime = int

definition datetime_max :: datetime where
  "datetime_max = 3652059 * 86400000000 - 1"

definition timedelta_minutes :: "int \<Rightarrow> exn + int" where
  "timedelta_minutes n =
     (let us = n * 60000000; days = us div 86400000000
      in if days < - 999999999 \<or> 999999999 < days then Inl OverflowError else Inr us)"

definition datetime_add :: "datetime \<Rightarrow> int \<Rightarrow> exn + datetime" where
  "datetime_add t d = (if t + d < 0 \<or> datetime_max < t + d then Inl OverflowError else Inr (t + d))"

text \<open>
  \<^verbatim>\<open>
  def calculate_expiry(minutes):
      return datetime.utcnow() + timedelta(minutes=minutes)
  \<close>
  The first argument is what \<^verbatim>\<open>datetime.utcnow()\<close> returns in this call.
\<close>

definition calculate_expiry :: "datetime \<Rightarrow> int \<Rightarrow> exn + datetime" where
  "calculate_expiry now minutes =
     (case timedelta_minutes minutes of
        Inl e \<Rightarrow> Inl e
      | Inr d \<Rightarrow> datetime_add now d)"

text \<open>
  \<^verbatim>\<open>
  def generate_short_code(length=7):
      return shortuuid.uuid()[:length]
  \<close>
  The first argument is what \<^verbatim>\<open>shortuuid.uuid()\<close> returns in this call.
\<close>

definition generate_short_code :: "string \<Rightarrow> nat \<Rightarrow> string" where
  "generate_short_code uuid len = take len uuid"

section \<open>The database (\<^verbatim>\<open>src/database.py\<close>)\<close>

text \<open>
  \<^verbatim>\<open>
  CREATE TABLE IF NOT EXISTS urls (
      id INTEGER PRIMARY KEY AUTOINCREMENT,
      original_url TEXT NOT NULL,
      short_code TEXT NOT NULL UNIQUE,
      created_at TEXT NOT NULL,
      expires_at TEXT NOT NULL)
  CREATE TABLE IF NOT EXISTS clicks (
      id INTEGER PRIMARY KEY AUTOINCREMENT,
      url_id INTEGER NOT NULL,
      timestamp TEXT NOT NULL,
      referrer TEXT, ip_address TEXT, country TEXT, region TEXT, city TEXT,
      FOREIGN KEY (url_id) REFERENCES urls (id))
  \<close>
  A table is the list of its rows in the order of their row ids, which is the order in
  which they were inserted and the order in which a scan of the table returns them. An
  AUTOINCREMENT key is one more than the largest key the table ever held, which the
  store keeps per table (SQLite's \<^verbatim>\<open>sqlite_sequence\<close>).
\<close>

record url_row =
  urls_id :: nat
  original_url :: string
  short_code :: string
  created_at :: datetime
  expires_at :: datetime

record click_row =
  clicks_id :: nat
  url_id :: nat
  timestamp :: datetime
  referrer :: string
  ip_address :: "string option"
  country :: string
  region :: string
  city :: string

record store =
  urls :: "url_row list"
  urls_seq :: nat
  clicks :: "click_row list"
  clicks_seq :: nat

text \<open>\<^verbatim>\<open>init_db\<close> on a new database file: both tables exist and are empty.\<close>

definition init_db :: store where
  "init_db = \<lparr>urls = [], urls_seq = 0, clicks = [], clicks_seq = 0\<rparr>"

text \<open>
  \<^verbatim>\<open>SELECT ... FROM urls WHERE short_code = ?\<close> followed by \<^verbatim>\<open>fetchone()\<close>: the first
  row with that code (compared byte by byte), or \<^verbatim>\<open>None\<close>.
\<close>

definition select_url :: "store \<Rightarrow> string \<Rightarrow> url_row option" where
  "select_url s code = find (\<lambda>r. short_code r = code) (urls s)"

text \<open>\<^verbatim>\<open>SELECT ... FROM clicks WHERE url_id = ?\<close> followed by \<^verbatim>\<open>fetchall()\<close>.\<close>

definition select_clicks :: "store \<Rightarrow> nat \<Rightarrow> click_row list" where
  "select_clicks s uid = filter (\<lambda>c. url_id c = uid) (clicks s)"

text \<open>
  \<^verbatim>\<open>INSERT INTO urls (...)\<close> and \<^verbatim>\<open>commit()\<close>. The statement raises when the database
  fails (\<open>fault\<close>) or when the UNIQUE constraint on \<^verbatim>\<open>short_code\<close> is violated; then
  nothing is written.
\<close>

definition insert_url ::
  "bool \<Rightarrow> string \<Rightarrow> string \<Rightarrow> datetime \<Rightarrow> datetime \<Rightarrow> store \<Rightarrow> exn + store" where
  "insert_url fault ou sc ca ea s =
     (if fault \<or> sc \<in> short_code ` set (urls s) then Inl SqliteError
      else Inr (s\<lparr>urls := urls s @
                     [\<lparr>urls_id = Suc (urls_seq s), original_url = ou, short_code = sc,
                       created_at = ca, expires_at = ea\<rparr>],
                  urls_seq := Suc (urls_seq s)\<rparr>))"

text \<open>\<^verbatim>\<open>INSERT INTO clicks (...)\<close> and \<^verbatim>\<open>commit()\<close>.\<close>

definition insert_click ::
  "bool \<Rightarrow> nat \<Rightarrow> datetime \<Rightarrow> string \<Rightarrow> string option \<Rightarrow> string \<times> string \<times> string \<Rightarrow> store
     \<Rightarrow> exn + store" where
  "insert_click fault uid ts rf ip geo s =
     (if fault then Inl SqliteError
      else Inr (s\<lparr>clicks := clicks s @
                     [\<lparr>clicks_id = Suc (clicks_seq s), url_id = uid, timestamp = ts,
                       referrer = rf, ip_address = ip, country = fst geo,
                       region = fst (snd geo), city = snd (snd geo)\<rparr>],
                  clicks_seq := Suc (clicks_seq s)\<rparr>))"

section \<open>The request handlers (\<^verbatim>\<open>src/app.py\<close>)\<close>

text \<open>
  What a request reads from outside the store: the \<^verbatim>\<open>BASE_URL\<close> of the environment
  (\<^verbatim>\<open>os.getenv\<close> gives \<^verbatim>\<open>None\<close> when it is not set), the results of the successive calls
  of \<^verbatim>\<open>shortuuid.uuid()\<close> and of \<^verbatim>\<open>datetime.utcnow()\<close> during the request, numbered
  from 0, and whether the database fails on the request's INSERT.
\<close>

record env =
  base_url :: "string option"
  uuids :: "nat \<Rightarrow> string"
  clock :: "nat \<Rightarrow> datetime"
  db_fault :: bool

text \<open>What the redirect handler reads from the HTTP request.\<close>

record request =
  x_forwarded_for :: "string option"
  remote_addr :: "string option"
  http_referrer :: "string option"

record click_detail =
  timestampZ :: datetime
  referrer_of :: string
  ipAddress :: "string option"
  location :: "string \<times> string \<times> string"

record stats =
  originalUrl :: string
  creationDate :: datetime
  expiryDate :: datetime
  totalClicks :: nat
  clickDetails :: "click_detail list"

text \<open>
  The responses, by status code. A handler either returns a response or raises an
  exception that nothing in the handler catches (Flask then answers 500).
\<close>

datatype response =
    Error400 string
  | Error404 string
  | Error409 string
  | Error410 string
  | Error500 string
  | Created201 string datetime
  | Stats200 stats
  | Redirect302 string

type_synonym outcome = "(exn + response) \<times> store"

text \<open>
  The names bound in the module \<^verbatim>\<open>src/app.py\<close> (its imports, lines 2 to 14, and its own
  definitions). The module \<^verbatim>\<open>sqlite3\<close> is imported by \<^verbatim>\<open>src/database.py\<close> only.
\<close>

definition app_globals :: "string list" where
  "app_globals =
     [''os'', ''logging'', ''re'', ''datetime'', ''Flask'', ''request'', ''jsonify'',
      ''redirect'', ''g'', ''load_dotenv'', ''init_db'', ''get_db_connection'',
      ''generate_short_code'', ''is_valid_url'', ''calculate_expiry'', ''get_client_ip'',
      ''get_geolocation'', ''app'', ''log_formatter'', ''file_handler'', ''console_handler'',
      ''before_request'', ''teardown_request'', ''create_short_url'', ''get_short_url_stats'',
      ''redirect_short_url'', ''not_found_error'', ''internal_error'']"

text \<open>
  \<^verbatim>\<open>except sqlite3.Error as e:\<close> when the \<^verbatim>\<open>try\<close> block has raised \<open>e\<close>. Python evaluates
  the expression \<^verbatim>\<open>sqlite3.Error\<close> first, which raises \<^verbatim>\<open>NameError\<close> when the name
  \<^verbatim>\<open>sqlite3\<close> is not bound. \<open>None\<close>: the handler's body runs. \<open>Some e'\<close>: \<open>e'\<close> leaves the
  statement.
\<close>

definition except_sqlite3_Error :: "exn \<Rightarrow> exn option" where
  "except_sqlite3_Error e =
     (if ''sqlite3'' \<notin> set app_globals then Some NameError
      else if e = SqliteError then None
      else Some e)"

subsection \<open>\<^verbatim>\<open>create_short_url\<close> (lines 53 to 115)\<close>

text \<open>
  \<^verbatim>\<open>
  expiry_minutes = validity_minutes
      if isinstance(validity_minutes, int) and validity_minutes > 0 else 30
  \<close>
\<close>

definition expiry_minutes :: "json \<Rightarrow> int" where
  "expiry_minutes validity_minutes =
     (case as_int validity_minutes of
        Some n \<Rightarrow> if n > 0 then n else 30
      | None \<Rightarrow> 30)"

text \<open>
  \<^verbatim>\<open>
  while True:
      generated_code = generate_short_code()
      cursor.execute("SELECT id FROM urls WHERE short_code = ?", (generated_code,))
      if not cursor.fetchone():
          final_shortcode = generated_code
          break
  \<close>
  \<open>i\<close> counts the calls of the generator so far. The loop has no other exit, so the
  function is partial: \<open>None\<close> is a loop that never ends.
\<close>

partial_function (option) generate_unique :: "(nat \<Rightarrow> string) \<Rightarrow> store \<Rightarrow> nat \<Rightarrow> string option" where
  "generate_unique us s i =
     (if select_url s (generate_short_code (us i) 7) = None
      then Some (generate_short_code (us i) 7)
      else generate_unique us s (Suc i))"

declare generate_unique.simps [code]

text \<open>\<^verbatim>\<open>f"{os.getenv('BASE_URL')}/{final_shortcode}"\<close>\<close>

definition short_link :: "string option \<Rightarrow> string \<Rightarrow> string" where
  "short_link base code = (case base of None \<Rightarrow> ''None'' | Some b \<Rightarrow> b) @ ''/'' @ code"

text \<open>
  Step 5, lines 98 to 115: the second reading of the clock is \<^verbatim>\<open>created_at\<close>; the row is
  inserted and the answer is 201 with the link and the expiry.
\<close>

definition store_in_database :: "env \<Rightarrow> string \<Rightarrow> string \<Rightarrow> datetime \<Rightarrow> store \<Rightarrow> outcome" where
  "store_in_database env ou final_shortcode ea s =
     (case insert_url (db_fault env) ou final_shortcode (clock env 1) ea s of
        Inr s' \<Rightarrow> (Inr (Created201 (short_link (base_url env) final_shortcode) ea), s')
      | Inl e \<Rightarrow>
          (case except_sqlite3_Error e of
             Some e' \<Rightarrow> (Inl e', s)
           | None \<Rightarrow>
               (Inr (Error500 ''Internal server error occurred while creating short URL''), s)))"

text \<open>
  Steps 1 to 4, in the order of the source: the URL check, the expiry (the first reading
  of the clock, inside \<^verbatim>\<open>calculate_expiry\<close>), then the custom code or the generator.
  \<^verbatim>\<open>re.match\<close> raises \<^verbatim>\<open>TypeError\<close> on a value that is not a string.
\<close>

definition create_short_url :: "env \<Rightarrow> body \<Rightarrow> store \<Rightarrow> outcome option" where
  "create_short_url env data s =
     (if \<not> truthy (url data) then Some (Inr (Error400 ''Invalid or missing URL''), s)
      else case url data of
        JStr u \<Rightarrow>
          if \<not> is_valid_url u then Some (Inr (Error400 ''Invalid or missing URL''), s)
          else (case calculate_expiry (clock env 0) (expiry_minutes (validity data)) of
            Inl e \<Rightarrow> Some (Inl e, s)
          | Inr ea \<Rightarrow>
              if truthy (shortcode data) then
                (case shortcode data of
                   JStr c \<Rightarrow>
                     if \<not> re_match False shortcode_regex c
                     then Some (Inr (Error400 (''Invalid custom shortcode format. Must be alphanumeric ''
                            @ ''(4-20 chars) and can include _ or -'')), s)
                     else if select_url s c \<noteq> None
                     then Some (Inr (Error409 (''Custom shortcode already in use. Please choose ''
                            @ ''another or omit to auto-generate.'')), s)
                     else Some (store_in_database env u c ea s)
                 | _ \<Rightarrow> Some (Inl TypeError, s))
              else
                (case generate_unique (uuids env) s 0 of
                   None \<Rightarrow> None
                 | Some c \<Rightarrow> Some (store_in_database env u c ea s)))
      | _ \<Rightarrow> Some (Inl TypeError, s))"

subsection \<open>\<^verbatim>\<open>get_short_url_stats\<close> (lines 117 to 154)\<close>

text \<open>
  The handler appends the letter \<^verbatim>\<open>Z\<close> to the text of every timestamp it returns; the
  model returns the datetime that the text stands for.
\<close>

definition click_detail_of :: "click_row \<Rightarrow> click_detail" where
  "click_detail_of c =
     \<lparr>timestampZ = timestamp c, referrer_of = referrer c, ipAddress = ip_address c,
      location = (country c, region c, city c)\<rparr>"

definition get_short_url_stats :: "string \<Rightarrow> store \<Rightarrow> outcome" where
  "get_short_url_stats code s =
     (case select_url s code of
        None \<Rightarrow> (Inr (Error404 ''Short URL not found.''), s)
      | Some url_entry \<Rightarrow>
          (let rows = select_clicks s (urls_id url_entry)
           in (Inr (Stats200
                 \<lparr>originalUrl = original_url url_entry,
                  creationDate = created_at url_entry,
                  expiryDate = expires_at url_entry,
                  totalClicks = length rows,
                  clickDetails = map click_detail_of rows\<rparr>), s)))"

subsection \<open>\<^verbatim>\<open>redirect_short_url\<close> (lines 156 to 192) and its helpers in \<^verbatim>\<open>src/utils.py\<close>\<close>

definition strip :: "string \<Rightarrow> string" where
  "strip t = rev (dropWhile py_isspace (rev (dropWhile py_isspace t)))"

text \<open>
  \<^verbatim>\<open>
  if 'X-Forwarded-For' in request.headers:
      return request.headers['X-Forwarded-For'].split(',')[0].strip()
  return request.remote_addr
  \<close>
\<close>

definition get_client_ip :: "request \<Rightarrow> string option" where
  "get_client_ip req =
     (case x_forwarded_for req of
        Some h \<Rightarrow> Some (strip (takeWhile (\<lambda>c. c \<noteq> CHR '','') h))
      | None \<Rightarrow> remote_addr req)"

definition get_geolocation :: "string option \<Rightarrow> string \<times> string \<times> string" where
  "get_geolocation ip =
     (if ip = None \<or> ip = Some [] then (''Unknown'', ''Unknown'', ''Unknown'')
      else (''India'', ''Andhra Pradesh'', ''Kadapa''))"

text \<open>
  \<^verbatim>\<open>redirect(target)\<close> of Flask builds a 302 response and stores the target in its
  \<^verbatim>\<open>Location\<close> header. Werkzeug refuses a header value that contains a carriage return or
  a line feed and raises \<^verbatim>\<open>ValueError\<close>.
\<close>

definition flask_redirect :: "string \<Rightarrow> exn + response" where
  "flask_redirect target =
     (if CHR 0x0A \<in> set target \<or> CHR 0x0D \<in> set target then Inl ValueError
      else Inr (Redirect302 target))"

text \<open>
  The click is inserted and committed before the last line of the handler,
  \<^verbatim>\<open>return redirect(url_entry['original_url'])\<close>, builds the response; an exception of
  that line leaves the committed click in the store.
\<close>

definition redirect_short_url :: "env \<Rightarrow> request \<Rightarrow> string \<Rightarrow> store \<Rightarrow> outcome" where
  "redirect_short_url env req code s =
     (case select_url s code of
        None \<Rightarrow> (Inr (Error404 ''Short URL not found.''), s)
      | Some url_entry \<Rightarrow>
          if expires_at url_entry < clock env 0
          then (Inr (Error410 ''Short URL has expired.''), s)
          else
            (let client_ip = get_client_ip req;
                 geolocation_data = get_geolocation client_ip;
                 rf = (case http_referrer req of
                         None \<Rightarrow> ''Direct''
                       | Some r \<Rightarrow> if r = [] then ''Direct'' else r)
             in case insert_click (db_fault env) (urls_id url_entry) (clock env 1) rf
                       client_ip geolocation_data s of
                  Inr s' \<Rightarrow> (flask_redirect (original_url url_entry), s')
                | Inl e \<Rightarrow>
                    (case except_sqlite3_Error e of
                       Some e' \<Rightarrow> (Inl e', s)
                     | None \<Rightarrow> (flask_redirect (original_url url_entry), s))))"

subsection \<open>Reachable stores\<close>

text \<open>
  The stores that the service can be in: the empty database, and whatever a handler
  leaves behind, for any request and any behaviour of the clock, the generator and the
  database.
\<close>

inductive reachable :: "store \<Rightarrow> bool" where
  reachable_init: "reachable init_db"
| reachable_create:
    "reachable s \<Longrightarrow> create_short_url env data s = Some (r, s') \<Longrightarrow> reachable s'"
| reachable_stats:
    "reachable s \<Longrightarrow> get_short_url_stats code s = (r, s') \<Longrightarrow> reachable s'"
| reachable_redirect:
    "reachable s \<Longrightarrow> redirect_short_url env req code s = (r, s') \<Longrightarrow> reachable s'"

text \<open>
  What holds in every reachable store: short codes are pairwise different, and no key of
  a URL row and no \<^verbatim>\<open>url_id\<close> of a click is beyond the last key the URL table gave out.
\<close>

definition store_inv :: "store \<Rightarrow> bool" where
  "store_inv s \<longleftrightarrow>
     distinct (map short_code (urls s)) \<and>
     (\<forall>e \<in> set (urls s). urls_id e \<le> urls_seq s) \<and>
     (\<forall>c \<in> set (clicks s). url_id c \<le> urls_seq s)"

text \<open>
  \<open>first_fresh us s i c\<close>: from call \<open>i\<close> on, \<open>c\<close> is the first code of the generator that
  no row of the store has.
\<close>

definition first_fresh :: "(nat \<Rightarrow> string) \<Rightarrow> store \<Rightarrow> nat \<Rightarrow> string \<Rightarrow> bool" where
  "first_fresh us s i c \<longleftrightarrow>
     (\<exists>n. c = generate_short_code (us (i + n)) 7 \<and> select_url s c = None \<and>
          (\<forall>k<n. select_url s (generate_short_code (us (i + k)) 7) \<noteq> None))"

subsection \<open>Concrete requests\<close>

text \<open>
  A run of the service on 2026-01-01: the clock advances by 250 microseconds between two
  readings; the generator returns the same identifier twice, then another one.
\<close>

definition demo_uuids :: "nat \<Rightarrow> string" where
  "demo_uuids n = (if n < 2 then ''mBxZ3kQpR7vTn2LwYc9dHs'' else ''7Yh2KpQwErT5uJoPaSdFgH'')"

definition demo_env :: env where
  "demo_env = \<lparr>base_url = Some ''http://localhost:5000'', uuids = demo_uuids,
               clock = (\<lambda>n. 63902822400000000 + 250 * int n), db_fault = False\<rparr>"

definition demo_body :: body where
  "demo_body = \<lparr>url = JStr ''https://example.com/page'', validity = JInt 1, shortcode = JNull\<rparr>"

definition custom_body :: body where
  "custom_body = \<lparr>url = JStr ''https://example.com/docs'', validity = JNull,
                  shortcode = JStr ''docs-2026''\<rparr>"

definition demo_request :: request where
  "demo_request = \<lparr>x_forwarded_for = Some ''203.0.113.7, 10.0.0.1'', remote_addr = Some ''10.0.0.1'',
                   http_referrer = None\<rparr>"

text \<open>The store after \<open>demo_body\<close> was posted to the empty database.\<close>

definition demo_store :: store where
  "demo_store =
     \<lparr>urls = [\<lparr>urls_id = 1, original_url = ''https://example.com/page'',
               short_code = ''mBxZ3kQ'', created_at = 63902822400000250,
               expires_at = 63902822460000000\<rparr>],
      urls_seq = 1, clicks = [], clicks_seq = 0\<rparr>"

text \<open>The store after \<open>demo_body\<close> was posted a second time.\<close>

definition demo_store2 :: store where
  "demo_store2 =
     \<lparr>urls = [\<lparr>urls_id = 1, original_url = ''https://example.com/page'',
               short_code = ''mBxZ3kQ'', created_at = 63902822400000250,
               expires_at = 63902822460000000\<rparr>,
              \<lparr>urls_id = 2, original_url = ''https://example.com/page'',
               short_code = ''7Yh2KpQ'', created_at = 63902822400000250,
               expires_at = 63902822460000000\<rparr>],
      urls_seq = 2, clicks = [], clicks_seq = 0\<rparr>"

text \<open>The store after one redirect to the row of \<open>demo_store\<close>.\<close>

definition demo_clicked :: store where
  "demo_clicked =
     \<lparr>urls = [\<lparr>urls_id = 1, original_url = ''https://example.com/page'',
               short_code = ''mBxZ3kQ'', created_at = 63902822400000250,
               expires_at = 63902822460000000\<rparr>],
      urls_seq = 1,
      clicks = [\<lparr>clicks_id = 1, url_id = 1, timestamp = 63902822400000250,
                 referrer = ''Direct'', ip_address = Some ''203.0.113.7'',
                 country = ''India'', region = ''Andhra Pradesh'', city = ''Kadapa''\<rparr>],
      clicks_seq = 1\<rparr>"

text \<open>The store after a second redirect to the same row.\<close>

definition demo_clicked2 :: store where
  "demo_clicked2 =
     \<lparr>urls = [\<lparr>urls_id = 1, original_url = ''https://example.com/page'',
               short_code = ''mBxZ3kQ'', created_at = 63902822400000250,
               expires_at = 63902822460000000\<rparr>],
      urls_seq = 1,
      clicks = [\<lparr>clicks_id = 1, url_id = 1, timestamp = 63902822400000250,
                 referrer = ''Direct'', ip_address = Some ''203.0.113.7'',
                 country = ''India'', region = ''Andhra Pradesh'', city = ''Kadapa''\<rparr>,
                \<lparr>clicks_id = 2, url_id = 1, timestamp = 63902822400000250,
                 referrer = ''Direct'', ip_address = Some ''203.0.113.7'',
                 country = ''India'', region = ''Andhra Pradesh'', city = ''Kadapa''\<rparr>],
      clicks_seq = 2\<rparr>"

text \<open>
  A request whose URL ends in a line feed, the store after it was posted to the empty
  database, and that store after one redirect to the new row.
\<close>

definition nl_body :: body where
  "nl_body = \<lparr>url = JStr (''http://localhost'' @ [CHR 0x0A]), validity = JNull,
              shortcode = JNull\<rparr>"

definition nl_store :: store where
  "nl_store =
     \<lparr>urls = [\<lparr>urls_id = 1, original_url = ''http://localhost'' @ [CHR 0x0A],
               short_code = ''mBxZ3kQ'', created_at = 63902822400000250,
               expires_at = 63902824200000000\<rparr>],
      urls_seq = 1, clicks = [], clicks_seq = 0\<rparr>"

definition nl_clicked :: store where
  "nl_clicked =
     \<lparr>urls = [\<lparr>urls_id = 1, original_url = ''http://localhost'' @ [CHR 0x0A],
               short_code = ''mBxZ3kQ'', created_at = 63902822400000250,
               expires_at = 63902824200000000\<rparr>],
      urls_seq = 1,
      clicks = [\<lparr>clicks_id = 1, url_id = 1, timestamp = 63902822400000250,
                 referrer = ''Direct'', ip_address = Some ''203.0.113.7'',
                 country = ''India'', region = ''Andhra Pradesh'', city = ''Kadapa''\<rparr>],
      clicks_seq = 1\<rparr>"

text \<open>A generator that returns the same identifier in every call.\<close>

definition stuck_env :: env where
  "stuck_env = \<lparr>base_url = Some ''http://localhost:5000'',
                uuids = (\<lambda>n. ''mBxZ3kQpR7vTn2LwYc9dHs''),
                clock = (\<lambda>n. 63902822400000000 + 250 * int n), db_fault = False\<rparr>"

text \<open>A request 61 seconds after \<open>demo_store\<close> was created.\<close>

definition late_env :: env where
  "late_env = \<lparr>base_url = Some ''http://localhost:5000'', uuids = demo_uuids,
               clock = (\<lambda>n. 63902822461000000 + 250 * int n), db_fault = False\<rparr>"

text \<open>The database fails on the INSERT of this request.\<close>

definition faulty_env :: env where
  "faulty_env = \<lparr>base_url = Some ''http://localhost:5000'', uuids = demo_uuids,
                 clock = (\<lambda>n. 63902822400000000 + 250 * int n), db_fault = True\<rparr>"

section \<open>Lemmas about the store and the handlers\<close>

lemma select_url_None_iff: "select_url s c = None \<longleftrightarrow> c \<notin> short_code ` set (urls s)"
  by (auto simp: select_url_def find_None_iff)

lemma select_url_Some: "select_url s c = Some e \<Longrightarrow> e \<in> set (urls s) \<and> short_code e = c"
  by (auto simp: select_url_def find_Some_iff)

lemma select_url_distinct:
  "distinct (map short_code (urls s)) \<Longrightarrow> e \<in> set (urls s) \<Longrightarrow> select_url s (short_code e) = Some e"
  unfolding select_url_def
proof (induction "urls s" arbitrary: s)
  case Nil
  then show ?case by simp
next
  case (Cons a xs)
  from Cons(2)[symmetric] Cons(3,4) show ?case
    using Cons(1)[of "s\<lparr>urls := xs\<rparr>"] by (auto)
qed

lemma first_fresh_now:
  "select_url s (generate_short_code (us i) 7) = None \<Longrightarrow>
   first_fresh us s i (generate_short_code (us i) 7)"
  unfolding first_fresh_def by (rule exI[where x=0]) simp

lemma first_fresh_later:
  assumes "select_url s (generate_short_code (us i) 7) \<noteq> None" "first_fresh us s (Suc i) c"
  shows "first_fresh us s i c"
proof -
  from assms(2) obtain n where n: "c = generate_short_code (us (Suc i + n)) 7"
      "select_url s c = None"
      "\<forall>k<n. select_url s (generate_short_code (us (Suc i + k)) 7) \<noteq> None"
    unfolding first_fresh_def by blast
  have "select_url s (generate_short_code (us (i + k)) 7) \<noteq> None" if "k < Suc n" for k
  proof (cases k)
    case 0
    with assms(1) show ?thesis by simp
  next
    case (Suc j)
    with that n(3) show ?thesis by simp
  qed
  with n(1,2) show ?thesis
    unfolding first_fresh_def by (intro exI[where x="Suc n"]) simp
qed

lemma generate_unique_Some:
  assumes "generate_unique us s i = Some c"
  shows "first_fresh us s i c"
proof (rule generate_unique.raw_induct[where P = first_fresh, OF _ assms])
  fix gen us s i c
  assume IH: "\<And>us s i c. gen us s i = Some c \<Longrightarrow> first_fresh us s i c"
    and eq: "(if select_url s (generate_short_code (us i) 7) = None
              then Some (generate_short_code (us i) 7)
              else gen us s (Suc i)) = Some c"
  show "first_fresh us s i c"
  proof (cases "select_url s (generate_short_code (us i) 7) = None")
    case True
    with eq have "c = generate_short_code (us i) 7" by simp
    with True show ?thesis by (simp add: first_fresh_now)
  next
    case False
    with eq have "gen us s (Suc i) = Some c" by simp
    from IH[OF this] False show ?thesis by (rule first_fresh_later[rotated])
  qed
qed

lemma generate_unique_first:
  "select_url s (generate_short_code (us (i + n)) 7) = None \<Longrightarrow>
   \<forall>k<n. select_url s (generate_short_code (us (i + k)) 7) \<noteq> None \<Longrightarrow>
   generate_unique us s i = Some (generate_short_code (us (i + n)) 7)"
proof (induction n arbitrary: i)
  case 0
  then show ?case by (subst generate_unique.simps) simp
next
  case (Suc n)
  from Suc(3) have c0: "select_url s (generate_short_code (us i) 7) \<noteq> None" by force
  have "generate_unique us s (Suc i) = Some (generate_short_code (us (Suc i + n)) 7)"
  proof (rule Suc.IH)
    show "select_url s (generate_short_code (us (Suc i + n)) 7) = None" using Suc(2) by simp
    show "\<forall>k<n. select_url s (generate_short_code (us (Suc i + k)) 7) \<noteq> None"
      using Suc(3) by (metis Suc_less_eq add_Suc_shift)
  qed
  then have "(if select_url s (generate_short_code (us i) 7) = None
           then Some (generate_short_code (us i) 7)
           else generate_unique us s (Suc i)) = Some (generate_short_code (us (i + Suc n)) 7)"
    using c0 by auto
  then show ?case by (subst generate_unique.simps)
qed

lemma create_cases:
  assumes "create_short_url env data s = Some (r, s')"
  shows "(s' = s \<and> (\<forall>l e. r \<noteq> Inr (Created201 l e))) \<or>
     (\<exists>u c ea. url data = JStr u \<and> is_valid_url u \<and>
        calculate_expiry (clock env 0) (expiry_minutes (validity data)) = Inr ea \<and>
        select_url s c = None \<and> \<not> db_fault env \<and>
        (if truthy (shortcode data)
         then shortcode data = JStr c \<and> re_match False shortcode_regex c
         else generate_unique (uuids env) s 0 = Some c) \<and>
        r = Inr (Created201 (short_link (base_url env) c) ea) \<and>
        s' = s\<lparr>urls := urls s @
                     [\<lparr>urls_id = Suc (urls_seq s), original_url = u, short_code = c,
                       created_at = clock env 1, expires_at = ea\<rparr>],
                  urls_seq := Suc (urls_seq s)\<rparr>)"
  using assms
  unfolding create_short_url_def store_in_database_def insert_url_def except_sqlite3_Error_def
  by (auto split: if_splits json.splits sum.splits option.splits simp: select_url_None_iff)


lemma is_valid_url_nonempty: "is_valid_url u \<Longrightarrow> u \<noteq> []"
proof
  assume "is_valid_url u" "u = []"
  moreover have "\<not> is_valid_url []" by code_simp
  ultimately show False by simp
qed

lemma shortcode_nonempty: "re_match False shortcode_regex c \<Longrightarrow> c \<noteq> []"
proof
  assume "re_match False shortcode_regex c" "c = []"
  moreover have "\<not> re_match False shortcode_regex []" by code_simp
  ultimately show False by simp
qed

lemma except_NameError: "except_sqlite3_Error e = Some NameError"
  by (simp add: except_sqlite3_Error_def app_globals_def)

lemma redirect_cases:
  "redirect_short_url env req code s =
     (case select_url s code of
        None \<Rightarrow> (Inr (Error404 ''Short URL not found.''), s)
      | Some e \<Rightarrow>
          if expires_at e < clock env 0 then (Inr (Error410 ''Short URL has expired.''), s)
          else if db_fault env then (Inl NameError, s)
          else (flask_redirect (original_url e),
                s\<lparr>clicks := clicks s @
                     [\<lparr>clicks_id = Suc (clicks_seq s), url_id = urls_id e,
                       timestamp = clock env 1,
                       referrer = (case http_referrer req of None \<Rightarrow> ''Direct''
                                   | Some r \<Rightarrow> if r = [] then ''Direct'' else r),
                       ip_address = get_client_ip req,
                       country = fst (get_geolocation (get_client_ip req)),
                       region = fst (snd (get_geolocation (get_client_ip req))),
                       city = snd (snd (get_geolocation (get_client_ip req)))\<rparr>],
                   clicks_seq := Suc (clicks_seq s)\<rparr>))"
  by (simp add: redirect_short_url_def insert_click_def except_NameError Let_def
           split: option.splits)

lemma store_inv_init: "store_inv init_db"
  by (simp add: store_inv_def init_db_def)

lemma store_inv_create:
  assumes "store_inv s" "create_short_url env data s = Some (r, s')"
  shows "store_inv s'"
  using create_cases[OF assms(2)] assms(1)
  by (auto simp: store_inv_def select_url_None_iff le_SucI)

lemma store_inv_redirect:
  assumes "store_inv s" "redirect_short_url env req code s = (r, s')"
  shows "store_inv s'"
proof (cases "select_url s code")
  case None
  with assms show ?thesis by (simp add: redirect_cases)
next
  case (Some e)
  then have "e \<in> set (urls s)" by (simp add: select_url_Some)
  with assms(1) have "urls_id e \<le> urls_seq s" by (simp add: store_inv_def)
  with assms Some show ?thesis
    by (auto simp: redirect_cases store_inv_def split: if_splits)
qed

lemma reachable_inv: "reachable s \<Longrightarrow> store_inv s"
proof (induction rule: reachable.induct)
  case reachable_init
  show ?case by (rule store_inv_init)
next
  case (reachable_create s env data r s')
  then show ?case by (blast intro: store_inv_create)
next
  case (reachable_stats s code r s')
  then show ?case by (auto simp: get_short_url_stats_def Let_def split: option.splits)
next
  case (reachable_redirect s env req code r s')
  then show ?case by (blast intro: store_inv_redirect)
qed

lemma create_custom:
  assumes "url data = JStr u" "is_valid_url u" "shortcode data = JStr c"
    "re_match False shortcode_regex c"
    "calculate_expiry (clock env 0) (expiry_minutes (validity data)) = Inr ea"
  shows "create_short_url env data s =
     (if select_url s c \<noteq> None
      then Some (Inr (Error409 (''Custom shortcode already in use. Please choose ''
                            @ ''another or omit to auto-generate.'')), s)
      else Some (store_in_database env u c ea s))"
  using assms is_valid_url_nonempty[OF assms(2)] shortcode_nonempty[OF assms(4)]
  by (simp add: create_short_url_def)

lemma create_generated:
  assumes "url data = JStr u" "is_valid_url u" "\<not> truthy (shortcode data)"
    "calculate_expiry (clock env 0) (expiry_minutes (validity data)) = Inr ea"
  shows "create_short_url env data s =
     (case generate_unique (uuids env) s 0 of
        None \<Rightarrow> None
      | Some c \<Rightarrow> Some (store_in_database env u c ea s))"
  using assms is_valid_url_nonempty[OF assms(2)]
  by (simp add: create_short_url_def)

lemma store_in_database_ok:
  assumes "select_url s c = None" "\<not> db_fault env"
  shows "store_in_database env u c ea s =
     (Inr (Created201 (short_link (base_url env) c) ea),
      s\<lparr>urls := urls s @
              [\<lparr>urls_id = Suc (urls_seq s), original_url = u, short_code = c,
                created_at = clock env 1, expires_at = ea\<rparr>],
         urls_seq := Suc (urls_seq s)\<rparr>)"
  using assms by (simp add: store_in_database_def insert_url_def select_url_None_iff)

lemma find_app:
  "find P (xs @ ys) = (case find P xs of None \<Rightarrow> find P ys | Some x \<Rightarrow> Some x)"
  by (induction xs) auto

lemma select_url_append_new:
  "select_url s c = None \<Longrightarrow> short_code e = c \<Longrightarrow>
   select_url (s\<lparr>urls := urls s @ [e], urls_seq := k\<rparr>) c = Some e"
  by (simp add: select_url_def find_app)

lemma least_fresh:
  fixes us :: "nat \<Rightarrow> string" and i n :: nat
  assumes "select_url s (generate_short_code (us (i + n)) 7) = None"
  shows "\<exists>m. select_url s (generate_short_code (us (i + m)) 7) = None \<and>
             (\<forall>k<m. select_url s (generate_short_code (us (i + k)) 7) \<noteq> None)"
proof -
  define P where "P = (\<lambda>m. select_url s (generate_short_code (us (i + m)) 7) = None)"
  have "P n" using assms by (simp add: P_def)
  then have "P (LEAST m. P m)" by (rule LeastI)
  moreover have "\<not> P k" if "k < (LEAST m. P m)" for k using that by (rule not_less_Least)
  ultimately show ?thesis unfolding P_def by blast
qed

lemma generate_unique_terminates:
  fixes us :: "nat \<Rightarrow> string" and i n :: nat
  assumes "select_url s (generate_short_code (us (i + n)) 7) = None"
  shows "\<exists>c. generate_unique us s i = Some c"
proof -
  from least_fresh[of s us i n] assms obtain m where
    "select_url s (generate_short_code (us (i + m)) 7) = None"
    "\<forall>k<m. select_url s (generate_short_code (us (i + k)) 7) \<noteq> None" by blast
  then have "generate_unique us s i = Some (generate_short_code (us (i + m)) 7)"
    by (rule generate_unique_first)
  then show ?thesis by blast
qed

lemma generate_unique_fresh: "generate_unique us s i = Some c \<Longrightarrow> select_url s c = None"
  using generate_unique_Some[of us s i c] by (auto simp: first_fresh_def)


text \<open>
  What the redirect handler does with a row it finds: 410 and no click when the row has
  expired; otherwise, when the database takes the INSERT, one more click for the row, and
  the redirect to the row's URL when that URL has no line break.
\<close>

lemma redirect_of_found_row:
  assumes "select_url s code = Some e"
  shows "(expires_at e < clock env 0 \<longrightarrow>
            redirect_short_url env req code s = (Inr (Error410 ''Short URL has expired.''), s)) \<and>
         (\<not> expires_at e < clock env 0 \<and> \<not> db_fault env \<longrightarrow>
            (\<exists>c r. redirect_short_url env req code s =
                   (r, s\<lparr>clicks := clicks s @ [c], clicks_seq := Suc (clicks_seq s)\<rparr>) \<and>
                 url_id c = urls_id e \<and>
                 (CHR 0x0A \<notin> set (original_url e) \<and> CHR 0x0D \<notin> set (original_url e) \<longrightarrow>
                    r = Inr (Redirect302 (original_url e)))))"
  using assms by (force simp: redirect_cases flask_redirect_def intro!: exI)

subsection \<open>The concrete run\<close>

lemma demo_created:
  "create_short_url demo_env demo_body init_db =
     Some (Inr (Created201 ''http://localhost:5000/mBxZ3kQ'' 63902822460000000), demo_store)"
  by code_simp

lemma reachable_demo_store: "reachable demo_store"
  using reachable_init demo_created by (rule reachable_create)

lemma demo_created_again:
  "create_short_url demo_env demo_body demo_store =
     Some (Inr (Created201 ''http://localhost:5000/7Yh2KpQ'' 63902822460000000), demo_store2)"
  by code_simp

lemma calculate_expiry_Inr:
  "calculate_expiry now m = Inr ea \<Longrightarrow> ea = now + m * 60000000"
  by (auto simp: calculate_expiry_def timedelta_minutes_def datetime_add_def Let_def
           split: sum.splits if_splits)

lemma demo_select:
  "select_url demo_store ''mBxZ3kQ'' =
     Some \<lparr>urls_id = 1, original_url = ''https://example.com/page'',
           short_code = ''mBxZ3kQ'', created_at = 63902822400000250,
           expires_at = 63902822460000000\<rparr>"
  by (simp add: select_url_def demo_store_def)

lemma demo_redirected:
  "redirect_short_url demo_env demo_request ''mBxZ3kQ'' demo_store =
     (Inr (Redirect302 ''https://example.com/page''), demo_clicked)"
  by code_simp

lemma reachable_demo_clicked: "reachable demo_clicked"
  using reachable_demo_store demo_redirected by (rule reachable_redirect)

section \<open>The claims\<close>

text \<open>
  C1. In every reachable store there is at most one row per short code: the short codes
  of the rows of \<^verbatim>\<open>urls\<close> are pairwise different. Every creation keeps this, and a
  creation that adds a row, with a requested or a generated code, adds one whose code no
  earlier row has.
\<close>

theorem short_code_unique:
  assumes "reachable s"
  shows "distinct (map short_code (urls s)) \<and>
         (create_short_url env data s = Some (r, s') \<longrightarrow>
            distinct (map short_code (urls s')) \<and>
            (urls s' = urls s \<or>
             (\<exists>e. urls s' = urls s @ [e] \<and> short_code e \<notin> short_code ` set (urls s))))"
proof -
  have inv: "store_inv s" using assms by (rule reachable_inv)
  have "distinct (map short_code (urls s'))"
    if c: "create_short_url env data s = Some (r, s')"
    using store_inv_create[OF inv c] by (simp add: store_inv_def)
  moreover have "urls s' = urls s \<or>
             (\<exists>e. urls s' = urls s @ [e] \<and> short_code e \<notin> short_code ` set (urls s))"
    if c: "create_short_url env data s = Some (r, s')"
    using create_cases[OF c] by (auto simp: select_url_None_iff)
  ultimately show ?thesis using inv by (simp add: store_inv_def)
qed

theorem short_code_unique_witness:
  "reachable demo_store \<and>
   create_short_url demo_env demo_body demo_store =
     Some (Inr (Created201 ''http://localhost:5000/7Yh2KpQ'' 63902822460000000), demo_store2) \<and>
   distinct (map short_code (urls demo_store)) \<and>
   distinct (map short_code (urls demo_store2)) \<and>
   map short_code (urls demo_store2) = [''mBxZ3kQ'', ''7Yh2KpQ'']"
  using short_code_unique[OF reachable_demo_store, of demo_env demo_body
      "Inr (Created201 ''http://localhost:5000/7Yh2KpQ'' 63902822460000000)" demo_store2]
    reachable_demo_store demo_created_again
  by (simp add: demo_store2_def)

text \<open>
  C2, as stated: after a successful creation the stored \<^verbatim>\<open>expires_at\<close> is the stored
  \<^verbatim>\<open>created_at\<close> plus the validity. It fails: the request below asks for one minute, and
  the row it creates expires 250 microseconds less than one minute after its creation
  time, because the two columns come from two readings of the clock.
\<close>

theorem expiry_not_created_plus_validity_counterexample:
  "create_short_url demo_env demo_body init_db =
     Some (Inr (Created201 ''http://localhost:5000/mBxZ3kQ'' 63902822460000000), demo_store) \<and>
   validity demo_body = JInt 1 \<and>
   expires_at (last (urls demo_store)) \<noteq> created_at (last (urls demo_store)) + 1 * 60000000"
  using demo_created by (simp add: demo_body_def demo_store_def)

text \<open>
  C2, amended: after a successful creation the stored \<^verbatim>\<open>expires_at\<close> is the first clock
  reading of the request (taken inside \<^verbatim>\<open>calculate_expiry\<close>) plus the minutes of validity,
  which are the requested validity when it is an integer greater than 0 and 30 otherwise;
  the stored \<^verbatim>\<open>created_at\<close> is the second reading, so the difference of the two columns
  is the validity exactly when both readings are equal.
\<close>

theorem expiry_from_first_clock_reading:
  assumes "create_short_url env data s = Some (Inr (Created201 l ea), s')"
  shows "\<exists>e. urls s' = urls s @ [e] \<and> expires_at e = ea \<and> created_at e = clock env 1 \<and>
           expires_at e = clock env 0 + expiry_minutes (validity data) * 60000000 \<and>
           (expires_at e = created_at e + expiry_minutes (validity data) * 60000000
              \<longleftrightarrow> clock env 1 = clock env 0) \<and>
           expiry_minutes (validity data) =
             (case validity data of
                JInt n \<Rightarrow> if 0 < n then n else 30
              | JBool b \<Rightarrow> if b then 1 else 30
              | _ \<Rightarrow> 30)"
proof -
  from create_cases[OF assms] obtain u c where
    ce: "calculate_expiry (clock env 0) (expiry_minutes (validity data)) = Inr ea" and
    s': "s' = s\<lparr>urls := urls s @
                     [\<lparr>urls_id = Suc (urls_seq s), original_url = u, short_code = c,
                       created_at = clock env 1, expires_at = ea\<rparr>],
                  urls_seq := Suc (urls_seq s)\<rparr>"
    by auto
  have em: "expiry_minutes (validity data) =
             (case validity data of
                JInt n \<Rightarrow> if 0 < n then n else 30
              | JBool b \<Rightarrow> if b then 1 else 30
              | _ \<Rightarrow> 30)"
    by (simp add: expiry_minutes_def split: json.splits)
  from calculate_expiry_Inr[OF ce] s' em show ?thesis by auto
qed

theorem expiry_from_first_clock_reading_witness:
  "create_short_url demo_env demo_body init_db =
     Some (Inr (Created201 ''http://localhost:5000/mBxZ3kQ'' 63902822460000000), demo_store) \<and>
   (\<exists>e. urls demo_store = urls init_db @ [e] \<and> expires_at e = 63902822460000000 \<and>
        created_at e = 63902822400000250 \<and>
        expires_at e = 63902822400000000 + 1 * 60000000)"
  using expiry_from_first_clock_reading[OF demo_created] demo_created
  by (auto simp: demo_env_def demo_body_def expiry_minutes_def)

text \<open>
  C3. A redirect to the code of an existing row that has not expired is meant to answer
  with the redirect to the row's \<^verbatim>\<open>original_url\<close> and to record one click. The code does
  so for every stored URL without a line break (lemma \<open>redirect_of_found_row\<close>), but
  \<^verbatim>\<open>is_valid_url\<close> admits a URL that ends in a line feed (C8): the request below stores
  one, and a redirect to the new row, before its expiry and with a working database,
  commits the click and then raises \<^verbatim>\<open>ValueError\<close> instead of returning the redirect.
\<close>

theorem redirect_line_feed_url_not_returned:
  "create_short_url demo_env nl_body init_db =
     Some (Inr (Created201 ''http://localhost:5000/mBxZ3kQ'' 63902824200000000), nl_store) \<and>
   clock demo_env 0 \<le> expires_at (last (urls nl_store)) \<and>
   redirect_short_url demo_env demo_request ''mBxZ3kQ'' nl_store = (Inl ValueError, nl_clicked) \<and>
   length (clicks nl_clicked) = Suc (length (clicks nl_store))"
proof -
  have "create_short_url demo_env nl_body init_db =
     Some (Inr (Created201 ''http://localhost:5000/mBxZ3kQ'' 63902824200000000), nl_store)"
    by code_simp
  moreover have "clock demo_env 0 \<le> expires_at (last (urls nl_store))"
    by (simp add: demo_env_def nl_store_def)
  moreover have "redirect_short_url demo_env demo_request ''mBxZ3kQ'' nl_store =
      (Inl ValueError, nl_clicked)"
    by code_simp
  moreover have "length (clicks nl_clicked) = Suc (length (clicks nl_store))"
    by (simp add: nl_clicked_def nl_store_def)
  ultimately show ?thesis by simp
qed

text \<open>
  C4. A database error while the click is inserted is meant to be logged and the redirect
  to go on. In the code the handler \<^verbatim>\<open>except sqlite3.Error\<close> names a module that
  \<^verbatim>\<open>src/app.py\<close> never imports, so the redirect ends in \<^verbatim>\<open>NameError\<close>: on a row that
  exists and has not expired, with a failing INSERT, no redirect is returned.
\<close>

theorem redirect_storage_error_not_absorbed:
  "redirect_short_url faulty_env demo_request ''mBxZ3kQ'' demo_store = (Inl NameError, demo_store)"
  by (simp add: redirect_cases demo_select faulty_env_def)

text \<open>
  C5. A creation request with a well-formed custom code that no row has, a valid URL and
  a validity whose expiry is a datetime, on a database that takes the INSERT, answers
  201 and appends a row with exactly that code; a following request with the same code
  (any valid URL, at any time) answers 409 and leaves the store as it is.
\<close>

theorem custom_code_then_conflict:
  assumes "re_match False shortcode_regex c" and "select_url s c = None"
    and "url data = JStr u" and "is_valid_url u" and "shortcode data = JStr c"
    and "calculate_expiry (clock env 0) (expiry_minutes (validity data)) = Inr ea"
    and "\<not> db_fault env"
    and "url data2 = JStr u2" and "is_valid_url u2" and "shortcode data2 = JStr c"
    and "calculate_expiry (clock env2 0) (expiry_minutes (validity data2)) = Inr ea2"
  shows "\<exists>s'. create_short_url env data s =
              Some (Inr (Created201 (short_link (base_url env) c) ea), s') \<and>
            urls s' = urls s @
              [\<lparr>urls_id = Suc (urls_seq s), original_url = u, short_code = c,
                created_at = clock env 1, expires_at = ea\<rparr>] \<and>
            create_short_url env2 data2 s' =
              Some (Inr (Error409 (''Custom shortcode already in use. Please choose ''
                              @ ''another or omit to auto-generate.'')), s')"
proof -
  let ?e = "\<lparr>urls_id = Suc (urls_seq s), original_url = u, short_code = c,
                created_at = clock env 1, expires_at = ea\<rparr>"
  let ?s' = "s\<lparr>urls := urls s @ [?e], urls_seq := Suc (urls_seq s)\<rparr>"
  have first: "create_short_url env data s =
      Some (Inr (Created201 (short_link (base_url env) c) ea), ?s')"
    using create_custom[OF assms(3,4,5,1,6), of s] assms(2)
      store_in_database_ok[OF assms(2,7), of u ea] by simp
  have "select_url ?s' c = Some ?e"
    using assms(2) by (simp add: select_url_append_new)
  then have second: "create_short_url env2 data2 ?s' =
      Some (Inr (Error409 (''Custom shortcode already in use. Please choose ''
                              @ ''another or omit to auto-generate.'')), ?s')"
    using create_custom[OF assms(8,9,10,1,11), of ?s'] by simp
  from first second show ?thesis by (intro exI[where x = ?s']) simp
qed


theorem custom_code_then_conflict_witness:
  "(\<exists>s'. create_short_url demo_env custom_body demo_store =
           Some (Inr (Created201 ''http://localhost:5000/docs-2026'' 63902824200000000), s') \<and>
         map short_code (urls s') = [''mBxZ3kQ'', ''docs-2026''] \<and>
         create_short_url late_env custom_body s' =
           Some (Inr (Error409 (''Custom shortcode already in use. Please choose ''
                           @ ''another or omit to auto-generate.'')), s'))"
proof -
  have 1: "re_match False shortcode_regex ''docs-2026''" by code_simp
  have 2: "select_url demo_store ''docs-2026'' = None" by code_simp
  have 3: "url custom_body = JStr ''https://example.com/docs''" by (simp add: custom_body_def)
  have 4: "is_valid_url ''https://example.com/docs''" by code_simp
  have 5: "shortcode custom_body = JStr ''docs-2026''" by (simp add: custom_body_def)
  have 6: "calculate_expiry (clock demo_env 0) (expiry_minutes (validity custom_body))
             = Inr 63902824200000000" by code_simp
  have 7: "\<not> db_fault demo_env" by (simp add: demo_env_def)
  have 8: "calculate_expiry (clock late_env 0) (expiry_minutes (validity custom_body))
             = Inr 63902824261000000" by code_simp
  from custom_code_then_conflict[OF 1 2 3 4 5 6 7 3 4 5 8]
  show ?thesis by (auto simp: demo_env_def demo_store_def short_link_def)
qed



text \<open>
  C7. For every row of a reachable store, the statistics of its code count the clicks
  recorded for the row's id: \<^verbatim>\<open>totalClicks\<close> and the length of \<^verbatim>\<open>clickDetails\<close> are their
  number, and \<^verbatim>\<open>clickDetails\<close> lists them in the order of the clicks table, which is the
  order of recording: a redirect to the code adds its click at the end of the list.
\<close>

theorem stats_lists_recorded_clicks:
  assumes "reachable s" and "e \<in> set (urls s)"
  shows "\<exists>st. get_short_url_stats (short_code e) s = (Inr (Stats200 st), s) \<and>
           totalClicks st = length (filter (\<lambda>c. url_id c = urls_id e) (clicks s)) \<and>
           length (clickDetails st) = length (filter (\<lambda>c. url_id c = urls_id e) (clicks s)) \<and>
           clickDetails st = map click_detail_of (filter (\<lambda>c. url_id c = urls_id e) (clicks s)) \<and>
           (redirect_short_url env req (short_code e) s = (Inr (Redirect302 u), s') \<longrightarrow>
              (\<exists>st'. get_short_url_stats (short_code e) s' = (Inr (Stats200 st'), s') \<and>
                     totalClicks st' = Suc (totalClicks st) \<and>
                     clickDetails st' = clickDetails st @ [click_detail_of (last (clicks s'))]))"
proof -
  have inv: "store_inv s" using assms(1) by (rule reachable_inv)
  then have sel: "select_url s (short_code e) = Some e"
    using assms(2) by (simp add: store_inv_def select_url_distinct)
  let ?own = "filter (\<lambda>c. url_id c = urls_id e) (clicks s)"
  let ?st = "\<lparr>originalUrl = original_url e, creationDate = created_at e,
              expiryDate = expires_at e, totalClicks = length ?own,
              clickDetails = map click_detail_of ?own\<rparr>"
  have stats: "get_short_url_stats (short_code e) s = (Inr (Stats200 ?st), s)"
    using sel by (simp add: get_short_url_stats_def select_clicks_def Let_def)
  have after: "\<exists>st'. get_short_url_stats (short_code e) s' = (Inr (Stats200 st'), s') \<and>
                     totalClicks st' = Suc (totalClicks ?st) \<and>
                     clickDetails st' = clickDetails ?st @ [click_detail_of (last (clicks s'))]"
    if r: "redirect_short_url env req (short_code e) s = (Inr (Redirect302 u), s')"
  proof -
    from r sel obtain c where c: "s' = s\<lparr>clicks := clicks s @ [c],
        clicks_seq := Suc (clicks_seq s)\<rparr>" "url_id c = urls_id e"
      by (auto simp: redirect_cases split: if_splits)
    then have "select_url s' (short_code e) = Some e"
      using sel by (simp add: select_url_def)
    then show ?thesis
      using c by (simp add: get_short_url_stats_def select_clicks_def Let_def)
  qed
  show ?thesis
    using stats after by (intro exI[where x = ?st]) simp
qed

theorem stats_lists_recorded_clicks_witness:
  "reachable demo_clicked \<and>
   (\<exists>st. get_short_url_stats ''mBxZ3kQ'' demo_clicked = (Inr (Stats200 st), demo_clicked) \<and>
         totalClicks st = 1 \<and> length (clickDetails st) = 1 \<and>
         map timestampZ (clickDetails st) = [63902822400000250]) \<and>
   redirect_short_url demo_env demo_request ''mBxZ3kQ'' demo_clicked =
     (Inr (Redirect302 ''https://example.com/page''), demo_clicked2) \<and>
   (\<exists>st'. get_short_url_stats ''mBxZ3kQ'' demo_clicked2 = (Inr (Stats200 st'), demo_clicked2) \<and>
         totalClicks st' = 2 \<and> length (clickDetails st') = 2)"
proof -
  have row: "\<lparr>urls_id = 1, original_url = ''https://example.com/page'',
               short_code = ''mBxZ3kQ'', created_at = 63902822400000250,
               expires_at = 63902822460000000\<rparr> \<in> set (urls demo_clicked)"
    by (simp add: demo_clicked_def)
  have again: "redirect_short_url demo_env demo_request ''mBxZ3kQ'' demo_clicked =
     (Inr (Redirect302 ''https://example.com/page''), demo_clicked2)"
    by code_simp
  from stats_lists_recorded_clicks[OF reachable_demo_clicked row,
      of demo_env demo_request "''https://example.com/page''" demo_clicked2]
    reachable_demo_clicked again
  show ?thesis by (auto simp: demo_clicked_def click_detail_of_def)
qed

text \<open>
  C8. \<^verbatim>\<open>is_valid_url\<close> is meant to accept exactly the absolute URLs of the grammar. The
  pattern ends in \<^verbatim>\<open>$\<close>, which also holds before a final line feed, so a valid URL
  followed by one line feed is accepted as well.
\<close>

theorem is_valid_url_trailing_newline:
  "is_valid_url (''http://localhost'' @ [CHR 0x0A])"
  by code_simp

text \<open>
  C9, as stated: the retry loop of the generator is bounded and ends in every store. It
  fails: in the reachable store \<open>demo_store\<close>, with a generator that keeps returning the
  identifier whose prefix is taken, the loop never ends and the creation request never
  returns.
\<close>

theorem retry_loop_unbounded_counterexample:
  "reachable demo_store \<and> shortcode demo_body = JNull \<and>
   generate_unique (uuids stuck_env) demo_store 0 = None \<and>
   create_short_url stuck_env demo_body demo_store = None"
proof -
  have taken: "select_url demo_store (generate_short_code (uuids stuck_env k) 7) \<noteq> None" for k
    by (simp add: stuck_env_def generate_short_code_def select_url_def demo_store_def)
  have none: "generate_unique (uuids stuck_env) demo_store 0 = None"
  proof (rule ccontr)
    assume "generate_unique (uuids stuck_env) demo_store 0 \<noteq> None"
    then obtain c where "generate_unique (uuids stuck_env) demo_store 0 = Some c" by auto
    from generate_unique_Some[OF this] obtain n where
      "select_url demo_store (generate_short_code (uuids stuck_env (0 + n)) 7) = None"
      unfolding first_fresh_def by blast
    with taken[of "0 + n"] show False by simp
  qed
  have 1: "url demo_body = JStr ''https://example.com/page''" by (simp add: demo_body_def)
  have 2: "is_valid_url ''https://example.com/page''" by code_simp
  have 3: "\<not> truthy (shortcode demo_body)" by (simp add: demo_body_def)
  have 5: "calculate_expiry (clock stuck_env 0) (expiry_minutes (validity demo_body))
             = Inr 63902822460000000" by code_simp
  have "create_short_url stuck_env demo_body demo_store = None"
    using create_generated[OF 1 2 3 5, of demo_store] none by simp
  with none reachable_demo_store show ?thesis by (simp add: demo_body_def)
qed

text \<open>
  C9, amended: the retry loop has no bound; it ends exactly when, from the current call
  on, the generator returns some code that no row of the store has, after any finite
  number of collisions; and when it ends, it yields the first such code, which is not
  in the store.
\<close>

theorem retry_loop_ends_iff_fresh_code:
  fixes us :: "nat \<Rightarrow> string" and i :: nat
  shows "((\<exists>c. generate_unique us s i = Some c) \<longleftrightarrow>
            (\<exists>n. select_url s (generate_short_code (us (i + n)) 7) = None)) \<and>
         (generate_unique us s i = Some c \<longrightarrow>
            select_url s c = None \<and>
            (\<exists>n. c = generate_short_code (us (i + n)) 7 \<and>
                 (\<forall>k<n. select_url s (generate_short_code (us (i + k)) 7) \<noteq> None)))"
proof (intro conjI iffI impI)
  assume "\<exists>c. generate_unique us s i = Some c"
  then obtain c where "generate_unique us s i = Some c" ..
  from generate_unique_Some[OF this]
  show "\<exists>n. select_url s (generate_short_code (us (i + n)) 7) = None"
    by (auto simp: first_fresh_def)
next
  assume "\<exists>n. select_url s (generate_short_code (us (i + n)) 7) = None"
  then obtain n where "select_url s (generate_short_code (us (i + n)) 7) = None" ..
  with generate_unique_terminates[of s us i n]
  show "\<exists>c. generate_unique us s i = Some c" by simp
next
  assume g: "generate_unique us s i = Some c"
  then show "select_url s c = None" by (rule generate_unique_fresh)
  from generate_unique_Some[OF g]
  show "\<exists>n. c = generate_short_code (us (i + n)) 7 \<and>
                 (\<forall>k<n. select_url s (generate_short_code (us (i + k)) 7) \<noteq> None)"
    by (auto simp: first_fresh_def)
qed

theorem retry_loop_ends_iff_fresh_code_witness:
  "select_url demo_store (generate_short_code (demo_uuids 0) 7) \<noteq> None \<and>
   select_url demo_store (generate_short_code (demo_uuids 1) 7) \<noteq> None \<and>
   select_url demo_store (generate_short_code (demo_uuids (0 + 2)) 7) = None \<and>
   generate_unique demo_uuids demo_store 0 = Some ''7Yh2KpQ'' \<and>
   select_url demo_store ''7Yh2KpQ'' = None"
proof -
  have g: "generate_unique demo_uuids demo_store 0 = Some ''7Yh2KpQ''" by code_simp
  have 0: "select_url demo_store (generate_short_code (demo_uuids 0) 7) \<noteq> None" by code_simp
  have 1: "select_url demo_store (generate_short_code (demo_uuids 1) 7) \<noteq> None" by code_simp
  have 2: "select_url demo_store (generate_short_code (demo_uuids (0 + 2)) 7) = None"
    by code_simp
  from retry_loop_ends_iff_fresh_code[of demo_uuids demo_store 0 "''7Yh2KpQ''"] g 0 1 2
  show ?thesis by simp
qed

text \<open>
  C10. The statistics handler returns the store as it was. The redirect handler leaves
  the rows and the key counter of \<^verbatim>\<open>urls\<close> as they were, and the clicks are either as
  before or the earlier clicks followed by one new click.
\<close>

theorem lookups_leave_urls_unchanged:
  "snd (get_short_url_stats code s) = s \<and>
   urls (snd (redirect_short_url env req code s)) = urls s \<and>
   urls_seq (snd (redirect_short_url env req code s)) = urls_seq s \<and>
   (clicks (snd (redirect_short_url env req code s)) = clicks s \<or>
    (\<exists>c. clicks (snd (redirect_short_url env req code s)) = clicks s @ [c]))"
  by (simp add: get_short_url_stats_def redirect_cases Let_def split: option.splits)

end
